theory Spec2Isabelle
  imports Complex_Main
begin

section \<open>Python values, dictionaries and exceptions\<close>

text \<open>
  The module \<^verbatim>\<open>risk_explainer.py\<close> receives JSON-like data: a stack (a list of
  dictionaries) and a mapping of risk scores. The only thing the code does with a value
  is to place it in an f-string, which calls \<^verbatim>\<open>format(v, "")\<close>. For a \<^verbatim>\<open>str\<close> that is
  the string itself; for every other value (a float, an int, \<^verbatim>\<open>None\<close>, a nested list)
  it is the text Python prints for it, which is taken as the parameter \<open>fmt\<close>.
\<close>

datatype 'a py_value = PyStr string | PyOther 'a

fun py_format :: "('a \<Rightarrow> string) \<Rightarrow> 'a py_value \<Rightarrow> string" where
  "py_format fmt (PyStr s) = s"
| "py_format fmt (PyOther v) = fmt v"

text \<open>
  A stack entry is a \<^verbatim>\<open>dict\<close> that is only ever looked up by key. The scores mapping is
  iterated with \<^verbatim>\<open>items()\<close>, so it is the list of its items in iteration order.
\<close>

type_synonym 'a py_dict = "string \<rightharpoonup> 'a py_value"

type_synonym 'a py_items = "('a py_value \<times> 'a py_value) list"

text \<open>
  The exceptions the module can meet: \<^verbatim>\<open>s['name']\<close> on a dictionary without that key,
  \<^verbatim>\<open>choices[0]\<close> on an empty list, and any other exception (what the external client
  raises, a failed validation), kept with its message. \<open>exc_str\<close> is \<^verbatim>\<open>str(e)\<close>; for a \<^verbatim>\<open>KeyError\<close> that is the \<^verbatim>\<open>repr\<close> of the
  key, the key between single quotes for a key such as \<^verbatim>\<open>name\<close>.
\<close>

datatype py_exception = KeyError string | IndexError | RaisedError string

fun exc_str :: "py_exception \<Rightarrow> string" where
  "exc_str (KeyError k) = [CHR 0x27] @ k @ [CHR 0x27]"
| "exc_str IndexError = ''list index out of range''"
| "exc_str (RaisedError m) = m"

definition dict_index :: "'a py_dict \<Rightarrow> string \<Rightarrow> py_exception + 'a py_value" where
  "dict_index d k = (case d k of None \<Rightarrow> Inl (KeyError k) | Some v \<Rightarrow> Inr v)"

definition dict_get :: "'a py_dict \<Rightarrow> string \<Rightarrow> 'a py_value \<Rightarrow> 'a py_value" where
  "dict_get d k dflt = (case d k of None \<Rightarrow> dflt | Some v \<Rightarrow> v)"

definition newline :: char where
  "newline = CHR 0x0A"

text \<open>\<^verbatim>\<open>sep.join(xs)\<close>\<close>

fun str_join :: "string \<Rightarrow> string list \<Rightarrow> string" where
  "str_join sep [] = []"
| "str_join sep [x] = x"
| "str_join sep (x # y # ys) = x @ sep @ str_join sep (y # ys)"

text \<open>
  A list comprehension whose element expression can raise: the elements are computed in
  order and the first exception leaves the comprehension.
\<close>

fun comprehension :: "('x \<Rightarrow> py_exception + 'y) \<Rightarrow> 'x list \<Rightarrow> py_exception + 'y list" where
  "comprehension f [] = Inr []"
| "comprehension f (x # xs) =
     (case f x of
        Inl e \<Rightarrow> Inl e
      | Inr y \<Rightarrow> (case comprehension f xs of Inl e \<Rightarrow> Inl e | Inr ys \<Rightarrow> Inr (y # ys)))"

section \<open>The formatter\<close>

text \<open>
  \<^verbatim>\<open>f"- {s['name']}: {s.get('dosage', 'N/A')} ({s.get('timing', 'unspecified')})"\<close>
\<close>

definition stack_item :: "('a \<Rightarrow> string) \<Rightarrow> 'a py_dict \<Rightarrow> py_exception + string" where
  "stack_item fmt s =
     (case dict_index s ''name'' of
        Inl e \<Rightarrow> Inl e
      | Inr n \<Rightarrow>
          Inr (''- '' @ py_format fmt n @ '': ''
               @ py_format fmt (dict_get s ''dosage'' (PyStr ''N/A''))
               @ '' ('' @ py_format fmt (dict_get s ''timing'' (PyStr ''unspecified''))
               @ '')''))"

definition format_stack :: "('a \<Rightarrow> string) \<Rightarrow> 'a py_dict list \<Rightarrow> py_exception + string" where
  "format_stack fmt stack =
     (case comprehension (stack_item fmt) stack of
        Inl e \<Rightarrow> Inl e
      | Inr items \<Rightarrow> Inr (str_join [newline] items))"

text \<open>\<^verbatim>\<open>f"{key}: {value}"\<close>\<close>

definition score_item :: "('a \<Rightarrow> string) \<Rightarrow> 'a py_value \<times> 'a py_value \<Rightarrow> string" where
  "score_item fmt kv = py_format fmt (fst kv) @ '': '' @ py_format fmt (snd kv)"

definition format_scores :: "('a \<Rightarrow> string) \<Rightarrow> 'a py_items \<Rightarrow> string" where
  "format_scores fmt scores = str_join [newline] (map (score_item fmt) scores)"

section \<open>What the specification says of the two blocks\<close>

text \<open>
  The lines of a block of text, as \<^verbatim>\<open>block.split("\n")\<close> gives them, the empty block
  having no line.
\<close>

fun split_newline :: "string \<Rightarrow> string list" where
  "split_newline [] = [[]]"
| "split_newline (c # cs) =
     (if c = newline then [] # split_newline cs
      else (case split_newline cs of [] \<Rightarrow> [[c]] | l # ls \<Rightarrow> (c # l) # ls))"

definition block_lines :: "string \<Rightarrow> string list" where
  "block_lines block = (if block = [] then [] else split_newline block)"

text \<open>The line the specification prescribes for a stack entry, from its three texts.\<close>

definition spec_stack_line :: "string \<Rightarrow> string \<Rightarrow> string \<Rightarrow> string" where
  "spec_stack_line name dosage timing = ''- '' @ name @ '': '' @ dosage @ '' ('' @ timing @ '')''"

text \<open>The text of an optional field: the placeholder when the key is missing.\<close>

definition field_text :: "('a \<Rightarrow> string) \<Rightarrow> 'a py_dict \<Rightarrow> string \<Rightarrow> string \<Rightarrow> string" where
  "field_text fmt s k placeholder = (case s k of None \<Rightarrow> placeholder | Some v \<Rightarrow> py_format fmt v)"

definition spec_stack_entry_line :: "('a \<Rightarrow> string) \<Rightarrow> 'a py_dict \<Rightarrow> string" where
  "spec_stack_entry_line fmt s =
     spec_stack_line (py_format fmt (the (s ''name'')))
       (field_text fmt s ''dosage'' ''N/A'') (field_text fmt s ''timing'' ''unspecified'')"

definition spec_score_line :: "string \<Rightarrow> string \<Rightarrow> string" where
  "spec_score_line key val = key @ '': '' @ val"

text \<open>No text that the formatter places in a line holds a newline character.\<close>

definition entry_one_line :: "('a \<Rightarrow> string) \<Rightarrow> 'a py_dict \<Rightarrow> bool" where
  "entry_one_line fmt s =
     (newline \<notin> set (field_text fmt s ''name'' [])
      \<and> newline \<notin> set (field_text fmt s ''dosage'' [])
      \<and> newline \<notin> set (field_text fmt s ''timing'' []))"

definition score_one_line :: "('a \<Rightarrow> string) \<Rightarrow> 'a py_value \<times> 'a py_value \<Rightarrow> bool" where
  "score_one_line fmt kv =
     (newline \<notin> set (py_format fmt (fst kv)) \<and> newline \<notin> set (py_format fmt (snd kv)))"

section \<open>The structured reply\<close>


record RiskExplanation =
  risk_level :: string
  user_friendly_summary :: string
  warnings :: "string list"
  next_steps :: "string list"
  affected_compounds :: "string list"
  confidence_score :: real




section \<open>The external model and the process\<close>

text \<open>
  The request of \<^verbatim>\<open>client.chat.completions.parse(model=..., messages=[...],
  response_format=RiskExplanation)\<close>, and the part of its result that the module reads:
  \<^verbatim>\<open>response.choices[0].message.parsed\<close>. The parsed object is optional: it is \<^verbatim>\<open>None\<close>
  when the model refuses to answer or gives no content.
\<close>

record chat_message =
  role :: string
  content :: string

record parse_request =
  model :: string
  messages :: "chat_message list"
  response_format :: string

record choice =
  message_parsed :: "RiskExplanation option"

record completion =
  choices :: "choice list"

text \<open>The client handle, which holds the credential it was built with.\<close>

datatype client = Client (api_key: string)

text \<open>
  One request sent to the external model ends in a completion, or in a failure: the
  exception that the call would raise, and whether the client library counts the failure
  among those it sends again (a timeout, a connection error, the statuses 408, 409, 429
  and 5xx).
\<close>

datatype attempt = Replied completion | Failed bool py_exception

text \<open>
  What the program does to the world outside it is kept as a trace of events: a read of
  the environment, a construction of the client, a call of the client's \<^verbatim>\<open>parse\<close> by the
  module, a request that the client sends to the external model, a wait of the client
  before it sends a request again. The external model is not determined by the program:
  \<open>provider\<close> gives the outcome of a request, which may depend on everything that happened
  before.
\<close>

datatype event =
    GetEnv string
  | ConstructClient "string option"
  | ParseCall client parse_request
  | HttpRequest client parse_request
  | Backoff

record world =
  environ :: "string \<rightharpoonup> string"
  trace :: "event list"
  provider :: "event list \<Rightarrow> client \<Rightarrow> parse_request \<Rightarrow> attempt"

fun is_parse_call :: "event \<Rightarrow> bool" where
  "is_parse_call (ParseCall c req) = True"
| "is_parse_call e = False"

fun is_http_request :: "event \<Rightarrow> bool" where
  "is_http_request (HttpRequest c req) = True"
| "is_http_request e = False"

fun is_backoff :: "event \<Rightarrow> bool" where
  "is_backoff Backoff = True"
| "is_backoff e = False"

fun is_startup_event :: "event \<Rightarrow> bool" where
  "is_startup_event (GetEnv k) = True"
| "is_startup_event (ConstructClient key) = True"
| "is_startup_event e = False"

definition api_calls :: "world \<Rightarrow> event list" where
  "api_calls w = filter is_parse_call (trace w)"

definition http_requests :: "world \<Rightarrow> event list" where
  "http_requests w = filter is_http_request (trace w)"


definition startup_events :: "world \<Rightarrow> event list" where
  "startup_events w = filter is_startup_event (trace w)"

text \<open>
  The client of the module is built with the credential only
  (\<^verbatim>\<open>OpenAI(api_key=os.getenv("OPENAI_API_KEY"))\<close>), so it keeps the default of its library
  for the number of times a failed request is sent again.
\<close>

definition DEFAULT_MAX_RETRIES :: nat where
  "DEFAULT_MAX_RETRIES = 2"

definition send_request :: "client \<Rightarrow> parse_request \<Rightarrow> world \<Rightarrow> attempt \<times> world" where
  "send_request c req w = (provider w (trace w) c req, w\<lparr>trace := trace w @ [HttpRequest c req]\<rparr>)"

text \<open>
  The request loop of the client, with the number of retries that are left: a failure that
  the library retries is followed by a wait and the same request again; the exception of
  the last attempt is the one that the call raises.
\<close>

fun request_with_retries ::
  "nat \<Rightarrow> client \<Rightarrow> parse_request \<Rightarrow> world \<Rightarrow> (py_exception + completion) \<times> world" where
  "request_with_retries 0 c req w =
     (case send_request c req w of
        (Replied response, w') \<Rightarrow> (Inr response, w')
      | (Failed retryable e, w') \<Rightarrow> (Inl e, w'))"
| "request_with_retries (Suc n) c req w =
     (case send_request c req w of
        (Replied response, w') \<Rightarrow> (Inr response, w')
      | (Failed retryable e, w') \<Rightarrow>
          (if retryable
           then request_with_retries n c req (w'\<lparr>trace := trace w' @ [Backoff]\<rparr>)
           else (Inl e, w')))"

definition chat_completions_parse ::
  "client \<Rightarrow> parse_request \<Rightarrow> world \<Rightarrow> (py_exception + completion) \<times> world" where
  "chat_completions_parse c req w =
     request_with_retries DEFAULT_MAX_RETRIES c req (w\<lparr>trace := trace w @ [ParseCall c req]\<rparr>)"

definition system_prompt :: string where
  "system_prompt = ''You are a supplement safety expert. Analyze the user's stack and provide clear risk explanations based on the provided scores. Be direct and actionable.''"

text \<open>The f-string \<^verbatim>\<open>context\<close> of \<^verbatim>\<open>explain_risk\<close>, from the two formatted blocks.\<close>

definition build_context :: "string \<Rightarrow> string \<Rightarrow> string" where
  "build_context stack_block scores_block =
     [newline] @ ''User's Current Stack:'' @ [newline]
     @ stack_block @ [newline, newline]
     @ ''Risk Assessment Scores:'' @ [newline]
     @ scores_block @ [newline, newline]
     @ ''Provide a clear, actionable risk explanation for this supplement combination.''
     @ [newline]"

definition build_request :: "string \<Rightarrow> parse_request" where
  "build_request context =
     \<lparr>model = ''gpt-4.1-mini'',
      messages = [\<lparr>role = ''system'', content = system_prompt\<rparr>,
                  \<lparr>role = ''user'', content = context\<rparr>],
      response_format = ''RiskExplanation''\<rparr>"

text \<open>
  \<^verbatim>\<open>explain_risk\<close>. The f-string evaluates \<^verbatim>\<open>format_stack(stack)\<close> first, so its
  \<^verbatim>\<open>KeyError\<close> leaves the function before the call; \<^verbatim>\<open>choices[0]\<close> raises on an empty
  list; the parsed object is returned as it is, also when it is \<^verbatim>\<open>None\<close>. The global
  \<^verbatim>\<open>client\<close> is the argument \<open>c\<close>.
\<close>

definition explain_risk ::
  "('a \<Rightarrow> string) \<Rightarrow> client \<Rightarrow> 'a py_dict list \<Rightarrow> 'a py_items \<Rightarrow> world
   \<Rightarrow> (py_exception + RiskExplanation option) \<times> world" where
  "explain_risk fmt c stack risk_scores w =
     (case format_stack fmt stack of
        Inl e \<Rightarrow> (Inl e, w)
      | Inr stack_block \<Rightarrow>
          (case chat_completions_parse c
                  (build_request (build_context stack_block (format_scores fmt risk_scores))) w of
             (Inl e, w') \<Rightarrow> (Inl e, w')
           | (Inr response, w') \<Rightarrow>
               (case choices response of
                  [] \<Rightarrow> (Inl IndexError, w')
                | ch # rest \<Rightarrow> (Inr (message_parsed ch), w'))))"

text \<open>
  The body of the handler \<^verbatim>\<open>api_explain_risk\<close>: what \<^verbatim>\<open>explain_risk\<close> returns is returned,
  any exception becomes
  \<^verbatim>\<open>HTTPException(status_code=500, detail=f"OpenAI API error: {str(e)}")\<close>.
\<close>

datatype handler_result = Returned "RiskExplanation option" | RaisedHTTPException nat string

definition api_explain_risk_body ::
  "('a \<Rightarrow> string) \<Rightarrow> client \<Rightarrow> 'a py_dict list \<Rightarrow> 'a py_items \<Rightarrow> world
   \<Rightarrow> handler_result \<times> world" where
  "api_explain_risk_body fmt c stack risk_scores w =
     (case explain_risk fmt c stack risk_scores w of
        (Inr explanation, w') \<Rightarrow> (Returned explanation, w')
      | (Inl e, w') \<Rightarrow> (RaisedHTTPException 500 (''OpenAI API error: '' @ exc_str e), w'))"

text \<open>
  The endpoint is the handler under
  \<^verbatim>\<open>@app.post("/api/insights/explain-risk", response_model=RiskExplanation)\<close>. The
  framework answers an \<^verbatim>\<open>HTTPException\<close> with its status and detail, and a returned
  explanation with status 200 and the explanation as body. It checks what the handler
  returned against the response model after the handler has returned, outside the
  \<^verbatim>\<open>try\<close> of the handler: a returned \<^verbatim>\<open>None\<close> fails that check and the request ends in the
  framework's own answer with status 500, which has no detail of the handler.
\<close>

datatype http_response = Response200 RiskExplanation | HTTPException nat string | InternalServerError

fun serialize_response :: "handler_result \<Rightarrow> http_response" where
  "serialize_response (Returned (Some explanation)) = Response200 explanation"
| "serialize_response (Returned None) = InternalServerError"
| "serialize_response (RaisedHTTPException status detail) = HTTPException status detail"

definition api_explain_risk ::
  "('a \<Rightarrow> string) \<Rightarrow> client \<Rightarrow> 'a py_dict list \<Rightarrow> 'a py_items \<Rightarrow> world
   \<Rightarrow> http_response \<times> world" where
  "api_explain_risk fmt c stack risk_scores w =
     (case api_explain_risk_body fmt c stack risk_scores w of
        (result, w') \<Rightarrow> (serialize_response result, w'))"

text \<open>
  Modelled from the spec: the constructor \<^verbatim>\<open>OpenAI(api_key=...)\<close> of the client library,
  which is not part of the repository. The specification says that the absence of the
  credential ``causes the external client construction to fail''.
\<close>

definition OpenAI :: "string option \<Rightarrow> py_exception + client" where
  "OpenAI key =
     (case key of
        None \<Rightarrow> Inl (RaisedError ''The api_key client option must be set'')
      | Some k \<Rightarrow> Inr (Client k))"

definition os_getenv :: "string \<Rightarrow> world \<Rightarrow> string option \<times> world" where
  "os_getenv k w = (environ w k, w\<lparr>trace := trace w @ [GetEnv k]\<rparr>)"

text \<open>
  The module level statement \<^verbatim>\<open>client = OpenAI(api_key=os.getenv("OPENAI_API_KEY"))\<close>,
  run when the module is imported.
\<close>

definition module_init :: "world \<Rightarrow> (py_exception + client) \<times> world" where
  "module_init w =
     (case os_getenv ''OPENAI_API_KEY'' w of
        (key, w1) \<Rightarrow> (OpenAI key, w1\<lparr>trace := trace w1 @ [ConstructClient key]\<rparr>))"

text \<open>
  A process: the module is imported, and if that succeeds the endpoint answers the
  requests it is sent, one after the other, with the one client.
\<close>

fun serve ::
  "('a \<Rightarrow> string) \<Rightarrow> client \<Rightarrow> ('a py_dict list \<times> 'a py_items) list \<Rightarrow> world
   \<Rightarrow> http_response list \<times> world" where
  "serve fmt c [] w = ([], w)"
| "serve fmt c (r # rs) w =
     (case api_explain_risk fmt c (fst r) (snd r) w of
        (resp, w1) \<Rightarrow> (case serve fmt c rs w1 of (resps, w2) \<Rightarrow> (resp # resps, w2)))"

definition run_process ::
  "('a \<Rightarrow> string) \<Rightarrow> ('a py_dict list \<times> 'a py_items) list \<Rightarrow> world
   \<Rightarrow> (py_exception + http_response list) \<times> world" where
  "run_process fmt reqs w =
     (case module_init w of
        (Inl e, w1) \<Rightarrow> (Inl e, w1)
      | (Inr c, w1) \<Rightarrow> (case serve fmt c reqs w1 of (resps, w2) \<Rightarrow> (Inr resps, w2)))"

text \<open>The events that handling a request with the client \<open>c\<close> can add to the trace.\<close>

fun client_event :: "client \<Rightarrow> event \<Rightarrow> bool" where
  "client_event c (ParseCall c' req) = (c' = c)"
| "client_event c (HttpRequest c' req) = (c' = c)"
| "client_event c Backoff = True"
| "client_event c e = False"

section \<open>Sample data\<close>

text \<open>
  The stack and the scores of the module's own smoke test (\<^verbatim>\<open>test_stack\<close>, \<^verbatim>\<open>test_scores\<close>),
  with the text Python prints for the three scores. The explanation has a confidence score
  beyond 1. The worlds are an external model that answers every request with a given
  explanation, one that refuses every request, and one that fails every request with a
  given message and runs without the credential.
\<close>

definition test_stack :: "real py_dict list" where
  "test_stack =
     [[''name'' \<mapsto> PyStr ''Magnesium Glycinate'', ''dosage'' \<mapsto> PyStr ''400mg'',
       ''timing'' \<mapsto> PyStr ''evening''],
      [''name'' \<mapsto> PyStr ''Zinc Picolinate'', ''dosage'' \<mapsto> PyStr ''30mg'',
       ''timing'' \<mapsto> PyStr ''evening''],
      [''name'' \<mapsto> PyStr ''Calcium'', ''dosage'' \<mapsto> PyStr ''1000mg'',
       ''timing'' \<mapsto> PyStr ''evening'']]"

definition test_scores :: "real py_items" where
  "test_scores =
     [(PyStr ''interaction_severity'', PyOther 0.7),
      (PyStr ''cumulative_load'', PyOther 0.5),
      (PyStr ''timing_conflicts'', PyOther 0.8)]"

definition test_fmt :: "real \<Rightarrow> string" where
  "test_fmt x = (if x = 0.7 then ''0.7'' else if x = 0.5 then ''0.5'' else ''0.8'')"

definition sample_explanation :: RiskExplanation where
  "sample_explanation =
     \<lparr>risk_level = ''high'',
      user_friendly_summary = ''Zinc, calcium and magnesium compete for absorption.'',
      warnings = [''Mineral competition''],
      next_steps = [''Take zinc in the morning''],
      affected_compounds = [''Zinc Picolinate'', ''Calcium''],
      confidence_score = 3 / 2\<rparr>"

definition replying_world :: "RiskExplanation \<Rightarrow> world" where
  "replying_world r =
     \<lparr>environ = [''OPENAI_API_KEY'' \<mapsto> ''sk-test''], trace = [],
      provider = (\<lambda>evs c req. Replied \<lparr>choices = [\<lparr>message_parsed = Some r\<rparr>]\<rparr>)\<rparr>"

definition refusing_world :: world where
  "refusing_world =
     \<lparr>environ = [''OPENAI_API_KEY'' \<mapsto> ''sk-test''], trace = [],
      provider = (\<lambda>evs c req. Replied \<lparr>choices = [\<lparr>message_parsed = None\<rparr>]\<rparr>)\<rparr>"

definition failing_world :: "bool \<Rightarrow> string \<Rightarrow> world" where
  "failing_world retryable m =
     \<lparr>environ = Map.empty, trace = [],
      provider = (\<lambda>evs c req. Failed retryable (RaisedError m))\<rparr>"

section \<open>Lemmas on joining and splitting\<close>

lemma split_newline_not_Nil: "split_newline s \<noteq> []"
  by (induction s) (auto split: list.splits)

lemma split_newline_no_newline: "newline \<notin> set x \<Longrightarrow> split_newline x = [x]"
  by (induction x) auto

lemma split_newline_append:
  "newline \<notin> set x \<Longrightarrow> split_newline (x @ newline # r) = x # split_newline r"
  by (induction x) auto

lemma split_newline_join_Cons:
  "newline \<notin> set x \<Longrightarrow> \<forall>y\<in>set ys. newline \<notin> set y \<Longrightarrow>
   split_newline (str_join [newline] (x # ys)) = x # ys"
proof (induction ys arbitrary: x)
  case Nil
  then show ?case by (simp add: split_newline_no_newline)
next
  case (Cons y ys)
  then have "split_newline (str_join [newline] (y # ys)) = y # ys" by simp
  with Cons.prems show ?case by (simp add: split_newline_append)
qed

lemma split_newline_join:
  "xs \<noteq> [] \<Longrightarrow> \<forall>x\<in>set xs. newline \<notin> set x \<Longrightarrow> split_newline (str_join [newline] xs) = xs"
  by (cases xs) (simp_all add: split_newline_join_Cons)

lemma str_join_Cons_not_Nil: "x \<noteq> [] \<Longrightarrow> str_join sep (x # ys) \<noteq> []"
  by (cases ys) simp_all

lemma str_join_eq_Nil: "str_join sep xs = [] \<Longrightarrow> \<forall>x\<in>set xs. x \<noteq> [] \<Longrightarrow> xs = []"
  by (cases xs) (auto simp: str_join_Cons_not_Nil)

lemma block_lines_join:
  assumes "\<forall>x\<in>set xs. newline \<notin> set x" and "\<forall>x\<in>set xs. x \<noteq> []"
  shows "block_lines (str_join [newline] xs) = xs"
proof (cases "xs = []")
  case True
  then show ?thesis by (simp add: block_lines_def)
next
  case False
  with assms(2) have "str_join [newline] xs \<noteq> []"
    using str_join_eq_Nil by blast
  with False assms(1) show ?thesis
    by (simp add: block_lines_def split_newline_join)
qed

lemma comprehension_Inr:
  "\<forall>x\<in>set xs. \<exists>y. f x = Inr y \<Longrightarrow> comprehension f xs = Inr (map (\<lambda>x. projr (f x)) xs)"
  by (induction xs) auto

lemma comprehension_Inl:
  "comprehension f xs = Inl e \<Longrightarrow> \<exists>x\<in>set xs. f x = Inl e"
  by (induction xs) (auto split: sum.splits)

lemma comprehension_Inr_all:
  "comprehension f xs = Inr ys \<Longrightarrow> \<forall>x\<in>set xs. \<exists>y. f x = Inr y"
  by (induction xs arbitrary: ys) (auto split: sum.splits)

lemma stack_item_named:
  "s ''name'' \<noteq> None \<Longrightarrow> stack_item fmt s = Inr (spec_stack_entry_line fmt s)"
  by (auto simp: stack_item_def dict_index_def dict_get_def spec_stack_entry_line_def
      spec_stack_line_def field_text_def split: option.splits)

lemma stack_item_unnamed: "s ''name'' = None \<Longrightarrow> stack_item fmt s = Inl (KeyError ''name'')"
  by (simp add: stack_item_def dict_index_def)

lemma format_stack_named:
  assumes "\<forall>s\<in>set stack. s ''name'' \<noteq> None"
  shows "format_stack fmt stack = Inr (str_join [newline] (map (spec_stack_entry_line fmt) stack))"
proof -
  have "comprehension (stack_item fmt) stack = Inr (map (\<lambda>s. projr (stack_item fmt s)) stack)"
    using assms by (intro comprehension_Inr) (simp add: stack_item_named)
  moreover have "map (\<lambda>s. projr (stack_item fmt s)) stack = map (spec_stack_entry_line fmt) stack"
    using assms by (simp add: stack_item_named)
  ultimately show ?thesis by (simp add: format_stack_def)
qed

lemma format_stack_unnamed:
  assumes "\<exists>s\<in>set stack. s ''name'' = None"
  shows "format_stack fmt stack = Inl (KeyError ''name'')"
proof (cases "comprehension (stack_item fmt) stack")
  case (Inl e)
  then obtain s where "s \<in> set stack" "stack_item fmt s = Inl e"
    using comprehension_Inl by fastforce
  then have "e = KeyError ''name''"
    by (cases "s ''name''") (auto simp: stack_item_unnamed stack_item_named)
  with Inl show ?thesis by (simp add: format_stack_def)
next
  case (Inr ys)
  then have "\<forall>s\<in>set stack. \<exists>y. stack_item fmt s = Inr y"
    by (rule comprehension_Inr_all)
  with assms show ?thesis by (auto simp: stack_item_unnamed)
qed

lemma entry_line_one_line:
  "s ''name'' \<noteq> None \<Longrightarrow> entry_one_line fmt s \<Longrightarrow> newline \<notin> set (spec_stack_entry_line fmt s)"
  by (auto simp: entry_one_line_def spec_stack_entry_line_def spec_stack_line_def
      field_text_def newline_def split: option.splits)

lemma entry_line_not_Nil: "spec_stack_entry_line fmt s \<noteq> []"
  by (simp add: spec_stack_entry_line_def spec_stack_line_def)

section \<open>Lemmas on the score items\<close>

lemma score_item_spec:
  "score_item fmt kv = spec_score_line (py_format fmt (fst kv)) (py_format fmt (snd kv))"
  by (simp add: score_item_def spec_score_line_def)

lemma score_item_one_line: "score_one_line fmt kv \<Longrightarrow> newline \<notin> set (score_item fmt kv)"
  by (auto simp: score_one_line_def score_item_def newline_def)

lemma score_item_not_Nil: "score_item fmt kv \<noteq> []"
  by (simp add: score_item_def)

section \<open>The stack block (C1)\<close>

text \<open>
  Claim C1 as it is stated fails: a name that holds a newline character is a well-formed
  string, the entry has a name, and its item spreads over two lines of the block, none of
  which has the prescribed form.
\<close>

theorem format_stack_lines_counterexample:
  "format_stack (\<lambda>u::unit. []) [[''name'' \<mapsto> PyStr (''a'' @ [newline] @ ''b'')]]
     = Inr (''- a'' @ [newline] @ ''b: N/A (unspecified)'')
   \<and> block_lines (''- a'' @ [newline] @ ''b: N/A (unspecified)'')
     = [''- a'', ''b: N/A (unspecified)'']"
  by (simp add: format_stack_def stack_item_def dict_index_def dict_get_def block_lines_def
      newline_def)

text \<open>
  Claim C1, amended: for every list of stack entries in which each entry has a name and no
  text placed in a line (name, dosage, timing) holds a newline character, the stack block
  has exactly one line per entry, in input order, of the form
  \<^verbatim>\<open>- <name>: <dosage> (<timing>)\<close>, with \<^verbatim>\<open>N/A\<close> for a missing dosage and \<^verbatim>\<open>unspecified\<close>
  for a missing timing; an entry with neither gives \<^verbatim>\<open>- <name>: N/A (unspecified)\<close>.
\<close>

theorem format_stack_lines:
  assumes "\<forall>s\<in>set stack. s ''name'' \<noteq> None"
    and "\<forall>s\<in>set stack. entry_one_line fmt s"
  shows "\<exists>block. format_stack fmt stack = Inr block
           \<and> block_lines block = map (spec_stack_entry_line fmt) stack
           \<and> length (block_lines block) = length stack
           \<and> (\<forall>s\<in>set stack. s ''dosage'' = None \<and> s ''timing'' = None \<longrightarrow>
                spec_stack_entry_line fmt s
                  = ''- '' @ py_format fmt (the (s ''name'')) @ '': N/A (unspecified)'')"
proof -
  let ?ls = "map (spec_stack_entry_line fmt) stack"
  have "\<forall>l\<in>set ?ls. newline \<notin> set l"
    using assms by (auto simp: entry_line_one_line)
  moreover have "\<forall>l\<in>set ?ls. l \<noteq> []"
    by (auto simp: entry_line_not_Nil)
  ultimately have "block_lines (str_join [newline] ?ls) = ?ls"
    by (rule block_lines_join)
  moreover have "format_stack fmt stack = Inr (str_join [newline] ?ls)"
    using assms(1) by (rule format_stack_named)
  moreover have "\<forall>s\<in>set stack. s ''dosage'' = None \<and> s ''timing'' = None \<longrightarrow>
      spec_stack_entry_line fmt s
        = ''- '' @ py_format fmt (the (s ''name'')) @ '': N/A (unspecified)''"
    by (simp add: spec_stack_entry_line_def spec_stack_line_def field_text_def)
  ultimately show ?thesis by simp
qed

text \<open>The two-entry stack of the module's own example, the second entry with its name only.\<close>

theorem format_stack_lines_witness:
  "\<exists>block. format_stack (\<lambda>u::unit. ''0.5'')
       [[''name'' \<mapsto> PyStr ''Magnesium Glycinate'', ''dosage'' \<mapsto> PyStr ''400mg'',
         ''timing'' \<mapsto> PyStr ''evening''],
        [''name'' \<mapsto> PyStr ''Zinc Picolinate'']] = Inr block
     \<and> block_lines block
       = [''- Magnesium Glycinate: 400mg (evening)'', ''- Zinc Picolinate: N/A (unspecified)'']"
proof -
  let ?stack = "[[''name'' \<mapsto> PyStr ''Magnesium Glycinate'', ''dosage'' \<mapsto> PyStr ''400mg'',
         ''timing'' \<mapsto> PyStr ''evening''],
        [''name'' \<mapsto> PyStr ''Zinc Picolinate'']] :: unit py_dict list"
  have a: "\<forall>s\<in>set ?stack. s ''name'' \<noteq> None" by simp
  have b: "\<forall>s\<in>set ?stack. entry_one_line (\<lambda>u::unit. ''0.5'') s"
    by (simp add: entry_one_line_def field_text_def newline_def)
  from format_stack_lines [OF a b] obtain block where
    "format_stack (\<lambda>u::unit. ''0.5'') ?stack = Inr block"
    "block_lines block = map (spec_stack_entry_line (\<lambda>u::unit. ''0.5'')) ?stack"
    by blast
  then show ?thesis
    by (simp add: spec_stack_entry_line_def spec_stack_line_def field_text_def)
qed

section \<open>The scores block (C2)\<close>

text \<open>
  Claim C2 as it is stated fails: a mapping with a single key that holds a newline character is not empty,
  and its block has two lines for the one key.
\<close>

theorem format_scores_lines_counterexample:
  "format_scores (\<lambda>u::unit. []) [(PyStr (''x'' @ [newline] @ ''y''), PyStr ''1'')]
     = ''x'' @ [newline] @ ''y: 1''
   \<and> block_lines (''x'' @ [newline] @ ''y: 1'') = [''x'', ''y: 1'']"
  by (simp add: format_scores_def score_item_def block_lines_def newline_def)

text \<open>
  Claim C2, amended: for every risk_scores mapping in which no key and no value is
  rendered with a newline character, the scores block has exactly one line per item of the
  mapping, in iteration order, each of the form \<^verbatim>\<open><key>: <value>\<close>, and no other line.
\<close>

theorem format_scores_lines:
  assumes "\<forall>kv\<in>set scores. score_one_line fmt kv"
  shows "block_lines (format_scores fmt scores)
           = map (\<lambda>kv. spec_score_line (py_format fmt (fst kv)) (py_format fmt (snd kv))) scores
         \<and> length (block_lines (format_scores fmt scores)) = length scores"
proof -
  let ?ls = "map (score_item fmt) scores"
  have "\<forall>l\<in>set ?ls. newline \<notin> set l"
    using assms by (auto simp: score_item_one_line)
  moreover have "\<forall>l\<in>set ?ls. l \<noteq> []"
    by (auto simp: score_item_not_Nil)
  ultimately have "block_lines (str_join [newline] ?ls) = ?ls"
    by (rule block_lines_join)
  then have lines: "block_lines (format_scores fmt scores) = ?ls"
    by (simp add: format_scores_def)
  have "score_item fmt
      = (\<lambda>kv. spec_score_line (py_format fmt (fst kv)) (py_format fmt (snd kv)))"
    by (rule ext) (rule score_item_spec)
  with lines show ?thesis by simp
qed

text \<open>Two scores, the floats rendered as Python prints them.\<close>

theorem format_scores_lines_witness:
  "block_lines (format_scores (\<lambda>x::real. if x = 0.2 then ''0.2'' else ''0.0'')
       [(PyStr ''interaction_severity'', PyOther 0.2), (PyStr ''timing_conflicts'', PyOther 0)])
     = [''interaction_severity: 0.2'', ''timing_conflicts: 0.0'']"
proof -
  let ?fmt = "\<lambda>x::real. if x = 0.2 then ''0.2'' else ''0.0''"
  let ?scores = "[(PyStr ''interaction_severity'', PyOther 0.2), (PyStr ''timing_conflicts'', PyOther 0)]
      :: real py_items"
  have a: "\<forall>kv\<in>set ?scores. score_one_line ?fmt kv"
    by (simp add: score_one_line_def newline_def)
  show ?thesis
    using format_scores_lines [OF a] by (simp add: spec_score_line_def)
qed

section \<open>The error paths of the formatter (C4)\<close>

text \<open>
  Claim C4 as it is stated fails: \<^verbatim>\<open>format_stack\<close> raises \<^verbatim>\<open>KeyError\<close> on a list that holds
  the empty dictionary.
\<close>

theorem format_stack_raises_counterexample:
  "format_stack (\<lambda>u::unit. []) [Map.empty] = Inl (KeyError ''name'')"
  by (simp add: format_stack_def stack_item_def dict_index_def)

text \<open>
  Claim C4, amended: \<^verbatim>\<open>format_stack\<close> returns a string exactly when every entry has the key
  \<^verbatim>\<open>name\<close>, and otherwise raises \<^verbatim>\<open>KeyError('name')\<close> and nothing else; an entry with a name
  is formatted whatever optional field it lacks, the placeholder standing for it;
  \<^verbatim>\<open>format_scores\<close> has no error path.
\<close>

theorem formatter_error_paths:
  "((\<exists>block. format_stack fmt stack = Inr block) = (\<forall>s\<in>set stack. s ''name'' \<noteq> None))
   \<and> ((\<exists>e. format_stack fmt stack = Inl e) = (\<exists>s\<in>set stack. s ''name'' = None))
   \<and> (\<forall>e. format_stack fmt stack = Inl e \<longrightarrow> e = KeyError ''name'')
   \<and> (\<forall>s. s ''name'' \<noteq> None \<longrightarrow>
         stack_item fmt s
           = Inr (spec_stack_line (py_format fmt (the (s ''name'')))
                    (field_text fmt s ''dosage'' ''N/A'')
                    (field_text fmt s ''timing'' ''unspecified'')))
   \<and> format_scores fmt scores = str_join [newline] (map (score_item fmt) scores)"
proof -
  have named: "(\<forall>s\<in>set stack. s ''name'' \<noteq> None) \<Longrightarrow> \<exists>block. format_stack fmt stack = Inr block"
    by (simp add: format_stack_named)
  have unnamed: "(\<exists>s\<in>set stack. s ''name'' = None) \<Longrightarrow> format_stack fmt stack = Inl (KeyError ''name'')"
    by (rule format_stack_unnamed)
  have 1: "(\<exists>block. format_stack fmt stack = Inr block) = (\<forall>s\<in>set stack. s ''name'' \<noteq> None)"
    using named unnamed by (metis Inl_Inr_False)
  have 2: "(\<exists>e. format_stack fmt stack = Inl e) = (\<exists>s\<in>set stack. s ''name'' = None)"
    using named unnamed by (metis Inl_Inr_False)
  have 3: "\<forall>e. format_stack fmt stack = Inl e \<longrightarrow> e = KeyError ''name''"
    using named unnamed by (metis Inl_Inr_False sum.inject(1))
  have 4: "\<forall>s. s ''name'' \<noteq> None \<longrightarrow>
         stack_item fmt s
           = Inr (spec_stack_line (py_format fmt (the (s ''name'')))
                    (field_text fmt s ''dosage'' ''N/A'')
                    (field_text fmt s ''timing'' ''unspecified''))"
    by (simp add: stack_item_named spec_stack_entry_line_def)
  show ?thesis using 1 2 3 4 by (simp add: format_scores_def)
qed

text \<open>An entry with its name only is formatted; an entry with a dosage and no name raises.\<close>

theorem formatter_error_paths_witness:
  "(\<exists>block. format_stack (\<lambda>u::unit. []) [[''name'' \<mapsto> PyStr ''Calcium'']] = Inr block)
   \<and> stack_item (\<lambda>u::unit. []) [''name'' \<mapsto> PyStr ''Calcium''] = Inr ''- Calcium: N/A (unspecified)''
   \<and> format_stack (\<lambda>u::unit. []) [[''dosage'' \<mapsto> PyStr ''30mg'']] = Inl (KeyError ''name'')"
proof -
  let ?fmt = "\<lambda>u::unit. []"
  note t = formatter_error_paths [of ?fmt "[[''name'' \<mapsto> PyStr ''Calcium'']]" "[]"]
  note u = formatter_error_paths [of ?fmt "[[''dosage'' \<mapsto> PyStr ''30mg'']]" "[]"]
  have a: "\<exists>block. format_stack ?fmt [[''name'' \<mapsto> PyStr ''Calcium'']] = Inr block"
    using t by simp
  have b: "stack_item ?fmt [''name'' \<mapsto> PyStr ''Calcium''] = Inr ''- Calcium: N/A (unspecified)''"
    using t by (simp add: spec_stack_line_def field_text_def)
  have "\<exists>e. format_stack ?fmt [[''dosage'' \<mapsto> PyStr ''30mg'']] = Inl e"
    using u by simp
  then have c: "format_stack ?fmt [[''dosage'' \<mapsto> PyStr ''30mg'']] = Inl (KeyError ''name'')"
    using u by blast
  show ?thesis using a b c by simp
qed

section \<open>Lemmas on the explanation client, the endpoint and the process\<close>

lemma request_first_replied:
  "provider w (trace w) c req = Replied response \<Longrightarrow>
   request_with_retries n c req w = (Inr response, w\<lparr>trace := trace w @ [HttpRequest c req]\<rparr>)"
  by (cases n) (simp_all add: send_request_def)

lemma request_first_final:
  "provider w (trace w) c req = Failed False e \<Longrightarrow>
   request_with_retries n c req w = (Inl e, w\<lparr>trace := trace w @ [HttpRequest c req]\<rparr>)"
  by (cases n) (simp_all add: send_request_def)

lemma request_last_failed:
  "provider w (trace w) c req = Failed retryable e \<Longrightarrow>
   request_with_retries 0 c req w = (Inl e, w\<lparr>trace := trace w @ [HttpRequest c req]\<rparr>)"
  by (simp add: send_request_def)

lemma request_retried:
  "provider w (trace w) c req = Failed True e \<Longrightarrow>
   request_with_retries (Suc n) c req w
     = request_with_retries n c req (w\<lparr>trace := trace w @ [HttpRequest c req, Backoff]\<rparr>)"
  by (simp add: send_request_def)

lemma request_with_retries_events:
  "\<exists>evs. snd (request_with_retries n c req w) = w\<lparr>trace := trace w @ evs\<rparr>
     \<and> (\<forall>e\<in>set evs. e = HttpRequest c req \<or> e = Backoff)
     \<and> 1 \<le> length (filter is_http_request evs)
     \<and> length (filter is_http_request evs) \<le> Suc n
     \<and> Suc (length (filter is_backoff evs)) = length (filter is_http_request evs)"
proof (induction n arbitrary: w)
  case 0
  show ?case
    by (intro exI[of _ "[HttpRequest c req]"])
      (cases "provider w (trace w) c req"; simp add: send_request_def)
next
  case (Suc n)
  show ?case
  proof (cases "provider w (trace w) c req")
    case (Replied response)
    then show ?thesis
      by (intro exI[of _ "[HttpRequest c req]"]) (simp add: request_first_replied send_request_def)
  next
    case (Failed retryable e)
    show ?thesis
    proof (cases retryable)
      case False
      with Failed show ?thesis
        by (intro exI[of _ "[HttpRequest c req]"]) (simp add: request_first_final send_request_def)
    next
      case True
      let ?w1 = "w\<lparr>trace := trace w @ [HttpRequest c req, Backoff]\<rparr>"
      from Suc.IH [of ?w1] obtain evs where evs:
        "snd (request_with_retries n c req ?w1) = ?w1\<lparr>trace := trace ?w1 @ evs\<rparr>"
        "\<forall>e\<in>set evs. e = HttpRequest c req \<or> e = Backoff"
        "1 \<le> length (filter is_http_request evs)"
        "length (filter is_http_request evs) \<le> Suc n"
        "Suc (length (filter is_backoff evs)) = length (filter is_http_request evs)"
        by blast
      have "snd (request_with_retries (Suc n) c req w)
          = w\<lparr>trace := trace w @ (HttpRequest c req # Backoff # evs)\<rparr>"
        using Failed True evs(1) by (simp add: request_retried send_request_def)
      with evs(2-5) show ?thesis
        by (intro exI[of _ "HttpRequest c req # Backoff # evs"]) simp
    qed
  qed
qed

lemma request_with_retries_reply:
  "fst (request_with_retries n c req w) = Inr response \<Longrightarrow>
   \<exists>evs. provider w (trace w @ evs) c req = Replied response"
proof (induction n arbitrary: w)
  case 0
  then show ?case
    by (intro exI[of _ "[]"]) (cases "provider w (trace w) c req"; simp add: send_request_def)
next
  case (Suc n)
  show ?case
  proof (cases "provider w (trace w) c req")
    case (Replied r)
    with Suc.prems have "r = response" by (simp add: request_first_replied send_request_def)
    with Replied show ?thesis by (intro exI[of _ "[]"]) simp
  next
    case (Failed retryable e)
    show ?thesis
    proof (cases retryable)
      case False
      with Failed Suc.prems show ?thesis by (simp add: request_first_final send_request_def)
    next
      case True
      let ?w1 = "w\<lparr>trace := trace w @ [HttpRequest c req, Backoff]\<rparr>"
      from Failed True Suc.prems have "fst (request_with_retries n c req ?w1) = Inr response"
        by (simp add: request_retried send_request_def)
      from Suc.IH [OF this] obtain evs where "provider ?w1 (trace ?w1 @ evs) c req = Replied response"
        by blast
      then have "provider w (trace w @ ([HttpRequest c req, Backoff] @ evs)) c req = Replied response"
        by simp
      then show ?thesis by blast
    qed
  qed
qed

lemma request_with_retries_same_replies:
  "\<forall>evs. provider w1 (trace w1 @ evs) c req = provider w2 (trace w2 @ evs) c req \<Longrightarrow>
   fst (request_with_retries n c req w1) = fst (request_with_retries n c req w2)"
proof (induction n arbitrary: w1 w2)
  case 0
  from "0.prems" [rule_format, of "[]"] show ?case
    by (cases "provider w2 (trace w2) c req") (simp_all add: send_request_def)
next
  case (Suc n)
  from Suc.prems [rule_format, of "[]"]
  have first: "provider w1 (trace w1) c req = provider w2 (trace w2) c req" by simp
  show ?case
  proof (cases "provider w2 (trace w2) c req")
    case (Replied r)
    with first show ?thesis by (simp add: request_first_replied send_request_def)
  next
    case (Failed retryable e)
    show ?thesis
    proof (cases retryable)
      case False
      with Failed first show ?thesis by (simp add: request_first_final send_request_def)
    next
      case True
      let ?v1 = "w1\<lparr>trace := trace w1 @ [HttpRequest c req, Backoff]\<rparr>"
      let ?v2 = "w2\<lparr>trace := trace w2 @ [HttpRequest c req, Backoff]\<rparr>"
      have "\<forall>evs. provider ?v1 (trace ?v1 @ evs) c req = provider ?v2 (trace ?v2 @ evs) c req"
        using Suc.prems [rule_format, of "[HttpRequest c req, Backoff] @ _"] by simp
      from Suc.IH [OF this] Failed True first show ?thesis
        by (simp add: request_retried send_request_def)
    qed
  qed
qed

lemma parse_events:
  "\<exists>evs. snd (chat_completions_parse c req w) = w\<lparr>trace := trace w @ ParseCall c req # evs\<rparr>
     \<and> (\<forall>e\<in>set evs. e = HttpRequest c req \<or> e = Backoff)
     \<and> 1 \<le> length (filter is_http_request evs)
     \<and> length (filter is_http_request evs) \<le> Suc DEFAULT_MAX_RETRIES
     \<and> Suc (length (filter is_backoff evs)) = length (filter is_http_request evs)"
proof -
  let ?w0 = "w\<lparr>trace := trace w @ [ParseCall c req]\<rparr>"
  from request_with_retries_events [of DEFAULT_MAX_RETRIES c req ?w0] obtain evs where evs:
    "snd (request_with_retries DEFAULT_MAX_RETRIES c req ?w0) = ?w0\<lparr>trace := trace ?w0 @ evs\<rparr>"
    "\<forall>e\<in>set evs. e = HttpRequest c req \<or> e = Backoff"
    "1 \<le> length (filter is_http_request evs)"
    "length (filter is_http_request evs) \<le> Suc DEFAULT_MAX_RETRIES"
    "Suc (length (filter is_backoff evs)) = length (filter is_http_request evs)"
    by blast
  from evs(1) have "snd (chat_completions_parse c req w) = w\<lparr>trace := trace w @ ParseCall c req # evs\<rparr>"
    by (simp add: chat_completions_parse_def)
  with evs(2-5) show ?thesis by blast
qed


lemma parse_reply:
  "fst (chat_completions_parse c req w) = Inr response \<Longrightarrow>
   \<exists>evs. provider w (trace w @ evs) c req = Replied response"
proof -
  assume "fst (chat_completions_parse c req w) = Inr response"
  then have "fst (request_with_retries DEFAULT_MAX_RETRIES c req (w\<lparr>trace := trace w @ [ParseCall c req]\<rparr>))
      = Inr response"
    by (simp add: chat_completions_parse_def)
  from request_with_retries_reply [OF this] obtain evs where
    "provider w (trace w @ ([ParseCall c req] @ evs)) c req = Replied response"
    by auto
  then show ?thesis by blast
qed

lemma parse_same_replies:
  assumes "\<forall>evs. provider w1 (trace w1 @ evs) c req = provider w2 (trace w2 @ evs) c req"
  shows "fst (chat_completions_parse c req w1) = fst (chat_completions_parse c req w2)"
proof -
  let ?v1 = "w1\<lparr>trace := trace w1 @ [ParseCall c req]\<rparr>"
  let ?v2 = "w2\<lparr>trace := trace w2 @ [ParseCall c req]\<rparr>"
  have "\<forall>evs. provider ?v1 (trace ?v1 @ evs) c req = provider ?v2 (trace ?v2 @ evs) c req"
    using assms [rule_format, of "[ParseCall c req] @ _"] by simp
  from request_with_retries_same_replies [OF this] show ?thesis
    by (simp add: chat_completions_parse_def)
qed


lemma explain_risk_unnamed:
  "\<exists>s\<in>set stack. s ''name'' = None \<Longrightarrow>
   explain_risk fmt c stack scores w = (Inl (KeyError ''name''), w)"
  by (simp add: explain_risk_def format_stack_unnamed)

lemma explain_risk_formatted:
  "format_stack fmt stack = Inr sb \<Longrightarrow>
   explain_risk fmt c stack scores w =
     ((case fst (chat_completions_parse c
                   (build_request (build_context sb (format_scores fmt scores))) w) of
         Inl e \<Rightarrow> Inl e
       | Inr response \<Rightarrow>
           (case choices response of [] \<Rightarrow> Inl IndexError | ch # rest \<Rightarrow> Inr (message_parsed ch))),
      snd (chat_completions_parse c
             (build_request (build_context sb (format_scores fmt scores))) w))"
  by (simp add: explain_risk_def split: prod.splits sum.splits list.splits)

lemma client_events_parse:
  "\<forall>e\<in>set evs. e = HttpRequest c req \<or> e = Backoff \<Longrightarrow>
   \<forall>e\<in>set (ParseCall c req # evs). client_event c e"
  by auto

lemma explain_risk_frame:
  "\<exists>evs. snd (explain_risk fmt c stack scores w) = w\<lparr>trace := trace w @ evs\<rparr>
         \<and> (\<forall>e\<in>set evs. client_event c e)"
proof (cases "format_stack fmt stack")
  case (Inl e)
  then have "snd (explain_risk fmt c stack scores w) = w\<lparr>trace := trace w @ []\<rparr>"
    by (simp add: explain_risk_def)
  then show ?thesis by (intro exI[of _ "[]"]) simp
next
  case (Inr sb)
  let ?req = "build_request (build_context sb (format_scores fmt scores))"
  from parse_events [of c ?req w] obtain evs where
    "snd (chat_completions_parse c ?req w) = w\<lparr>trace := trace w @ ParseCall c ?req # evs\<rparr>"
    "\<forall>e\<in>set evs. e = HttpRequest c ?req \<or> e = Backoff"
    by blast
  with Inr show ?thesis
    by (intro exI[of _ "ParseCall c ?req # evs"])
      (simp add: explain_risk_formatted client_events_parse del: set_simps)
qed

lemma api_explain_risk_snd:
  "snd (api_explain_risk fmt c stack scores w) = snd (explain_risk fmt c stack scores w)"
  by (simp add: api_explain_risk_def api_explain_risk_body_def split: prod.splits sum.splits)

lemma api_explain_risk_fst:
  "fst (api_explain_risk fmt c stack scores w) =
     (case fst (explain_risk fmt c stack scores w) of
        Inl e \<Rightarrow> HTTPException 500 (''OpenAI API error: '' @ exc_str e)
      | Inr None \<Rightarrow> InternalServerError
      | Inr (Some r) \<Rightarrow> Response200 r)"
  by (simp add: api_explain_risk_def api_explain_risk_body_def
      split: prod.splits sum.splits option.splits)

lemma api_explain_risk_body_fst:
  "fst (api_explain_risk_body fmt c stack scores w) =
     (case fst (explain_risk fmt c stack scores w) of
        Inl e \<Rightarrow> RaisedHTTPException 500 (''OpenAI API error: '' @ exc_str e)
      | Inr explanation \<Rightarrow> Returned explanation)"
  by (simp add: api_explain_risk_body_def split: prod.splits sum.splits)

lemma api_explain_risk_frame:
  "\<exists>evs. snd (api_explain_risk fmt c stack scores w) = w\<lparr>trace := trace w @ evs\<rparr>
         \<and> (\<forall>e\<in>set evs. client_event c e)"
  using explain_risk_frame [of fmt c stack scores w] by (simp add: api_explain_risk_snd)

lemma format_stack_test_stack: "\<exists>sb. format_stack test_fmt test_stack = Inr sb"
  by (simp add: format_stack_named test_stack_def)

lemma parse_replying_world:
  "fst (chat_completions_parse c req (replying_world r))
     = Inr \<lparr>choices = [\<lparr>message_parsed = Some r\<rparr>]\<rparr>"
  by (simp add: chat_completions_parse_def replying_world_def request_first_replied)

lemma parse_refusing_world:
  "fst (chat_completions_parse c req refusing_world)
     = Inr \<lparr>choices = [\<lparr>message_parsed = None\<rparr>]\<rparr>"
  by (simp add: chat_completions_parse_def refusing_world_def request_first_replied)

lemma parse_failing_world:
  "fst (chat_completions_parse c req (failing_world retryable m)) = Inl (RaisedError m)"
  by (simp add: chat_completions_parse_def failing_world_def DEFAULT_MAX_RETRIES_def
      numeral_2_eq_2 send_request_def)

section \<open>The outcomes of the endpoint (C3)\<close>

text \<open>
  Claim C3 says that the endpoint has two outcomes and no other: status 500 with the detail
  \<^verbatim>\<open>OpenAI API error: m\<close> when \<^verbatim>\<open>explain_risk\<close> raises an exception with message \<open>m\<close>, and
  status 200 with the explanation when it returns one. The code misses a case: when the
  external model answers the smoke-test request with a refusal, the parsed object is
  \<^verbatim>\<open>None\<close>, \<^verbatim>\<open>explain_risk\<close> returns it without raising although it is declared to return a
  RiskExplanation, the handler returns it past its \<^verbatim>\<open>except\<close>, and the request ends in a
  500 that has no such detail.
\<close>

theorem refusal_escapes_handler:
  "fst (explain_risk test_fmt (Client ''sk-test'') test_stack test_scores refusing_world) = Inr None
   \<and> fst (api_explain_risk_body test_fmt (Client ''sk-test'') test_stack test_scores refusing_world)
       = Returned None
   \<and> fst (api_explain_risk test_fmt (Client ''sk-test'') test_stack test_scores refusing_world)
       = InternalServerError"
proof -
  obtain sb where sb: "format_stack test_fmt test_stack = Inr sb"
    using format_stack_test_stack by blast
  have 1: "fst (explain_risk test_fmt (Client ''sk-test'') test_stack test_scores refusing_world)
      = Inr None"
    by (simp add: explain_risk_formatted [OF sb] parse_refusing_world)
  then have 2: "fst (api_explain_risk_body test_fmt (Client ''sk-test'') test_stack test_scores
      refusing_world) = Returned None"
    by (simp add: api_explain_risk_body_fst)
  from 1 have 3: "fst (api_explain_risk test_fmt (Client ''sk-test'') test_stack test_scores
      refusing_world) = InternalServerError"
    by (simp add: api_explain_risk_fst)
  show ?thesis using 1 2 3 by simp
qed

section \<open>A stack entry without a name (C10)\<close>

text \<open>
  Claim C10: for every request with a stack entry that lacks the key \<^verbatim>\<open>name\<close>,
  \<^verbatim>\<open>explain_risk\<close> raises \<^verbatim>\<open>KeyError\<close> before any call to the external model (the world is
  left as it was), and the endpoint answers 500 with a detail that begins with
  \<^verbatim>\<open>OpenAI API error: \<close> although no call was made.
\<close>

theorem missing_name_error:
  assumes "\<exists>s\<in>set stack. s ''name'' = None"
  shows "explain_risk fmt c stack scores w = (Inl (KeyError ''name''), w)
         \<and> api_explain_risk fmt c stack scores w
             = (HTTPException 500 (''OpenAI API error: '' @ [CHR 0x27] @ ''name'' @ [CHR 0x27]), w)
         \<and> api_calls (snd (api_explain_risk fmt c stack scores w)) = api_calls w"
  using assms by (simp add: explain_risk_unnamed api_explain_risk_def api_explain_risk_body_def)

text \<open>The smoke-test stack followed by an entry that has a dosage and no name.\<close>

theorem missing_name_error_witness:
  "api_explain_risk test_fmt (Client ''sk-test'')
       (test_stack @ [[''dosage'' \<mapsto> PyStr ''5mg'']]) test_scores (replying_world sample_explanation)
     = (HTTPException 500 (''OpenAI API error: '' @ [CHR 0x27] @ ''name'' @ [CHR 0x27]),
        replying_world sample_explanation)
   \<and> api_calls (replying_world sample_explanation) = []"
proof -
  have "\<exists>s\<in>set (test_stack @ [[''dosage'' \<mapsto> PyStr ''5mg'']]). s ''name'' = None"
    by simp
  from missing_name_error [OF this] show ?thesis
    by (simp add: api_calls_def replying_world_def)
qed


section \<open>The number of calls to the external model (C7)\<close>





section \<open>The risk level (C5)\<close>







section \<open>The explanation is passed through (C6)\<close>

text \<open>
  Claim C6: the body of a 200 response is \<open>r\<close> exactly when \<open>r\<close> is the object parsed from
  the first choice of the completion that the client's call returned for this request,
  which is a reply of the external model to this very request (the reply to the first
  attempt when that one succeeds): every field, the confidence score among them, is
  passed through unchanged and nothing is clamped.
\<close>

theorem explanation_passed_through:
  "((fst (api_explain_risk fmt c stack scores w) = Response200 r) =
      (\<exists>sb response ch rest.
         format_stack fmt stack = Inr sb
         \<and> fst (chat_completions_parse c
                  (build_request (build_context sb (format_scores fmt scores))) w) = Inr response
         \<and> choices response = ch # rest
         \<and> message_parsed ch = Some r))
   \<and> (\<forall>req response. fst (chat_completions_parse c req w) = Inr response \<longrightarrow>
         (\<exists>evs. provider w (trace w @ evs) c req = Replied response))
   \<and> (\<forall>sb response ch rest.
         format_stack fmt stack = Inr sb
         \<and> provider w (trace w @ [ParseCall c (build_request (build_context sb (format_scores fmt scores)))])
              c (build_request (build_context sb (format_scores fmt scores))) = Replied response
         \<and> choices response = ch # rest
         \<and> message_parsed ch = Some r
         \<longrightarrow> fst (api_explain_risk fmt c stack scores w) = Response200 r)"
proof -
  have main: "(fst (api_explain_risk fmt c stack scores w) = Response200 r) =
      (\<exists>sb response ch rest.
         format_stack fmt stack = Inr sb
         \<and> fst (chat_completions_parse c
                  (build_request (build_context sb (format_scores fmt scores))) w) = Inr response
         \<and> choices response = ch # rest
         \<and> message_parsed ch = Some r)"
  proof (cases "format_stack fmt stack")
    case (Inl e)
    then show ?thesis
      by (simp add: api_explain_risk_fst explain_risk_def)
  next
    case (Inr sb)
    show ?thesis
    proof (cases "fst (chat_completions_parse c
        (build_request (build_context sb (format_scores fmt scores))) w)")
      case (Inl e)
      with Inr show ?thesis
        by (simp add: api_explain_risk_fst explain_risk_formatted)
    next
      case reply: (Inr response)
      show ?thesis
      proof (cases "choices response")
        case Nil
        with Inr reply show ?thesis
          by (simp add: api_explain_risk_fst explain_risk_formatted)
      next
        case (Cons ch rest)
        with Inr reply show ?thesis
          by (cases "message_parsed ch") (simp_all add: api_explain_risk_fst explain_risk_formatted)
      qed
    qed
  qed
  have pinned: "\<forall>req response. fst (chat_completions_parse c req w) = Inr response \<longrightarrow>
      (\<exists>evs. provider w (trace w @ evs) c req = Replied response)"
    using parse_reply by blast
  have first: "\<forall>sb response ch rest.
         format_stack fmt stack = Inr sb
         \<and> provider w (trace w @ [ParseCall c (build_request (build_context sb (format_scores fmt scores)))])
              c (build_request (build_context sb (format_scores fmt scores))) = Replied response
         \<and> choices response = ch # rest
         \<and> message_parsed ch = Some r
         \<longrightarrow> fst (api_explain_risk fmt c stack scores w) = Response200 r"
    by (auto simp: api_explain_risk_fst explain_risk_formatted chat_completions_parse_def
        request_first_replied)
  show ?thesis using main pinned first by blast
qed

text \<open>
  A confidence score of 1.5 reaches the response as it is, and a score of -1 is not
  raised to 0.
\<close>

theorem explanation_passed_through_witness:
  "fst (api_explain_risk test_fmt (Client ''sk-test'') test_stack test_scores
          (replying_world sample_explanation)) = Response200 sample_explanation
   \<and> confidence_score sample_explanation = 3 / 2
   \<and> fst (api_explain_risk test_fmt (Client ''sk-test'') test_stack test_scores
            (replying_world (sample_explanation\<lparr>confidence_score := - 1\<rparr>)))
       \<noteq> Response200 (sample_explanation\<lparr>confidence_score := 0\<rparr>)"
proof -
  obtain sb where sb: "format_stack test_fmt test_stack = Inr sb"
    using format_stack_test_stack by blast
  let ?c = "Client ''sk-test''"
  note t1 = explanation_passed_through [of test_fmt ?c test_stack test_scores
      "replying_world sample_explanation" sample_explanation, THEN conjunct1]
  note t2 = explanation_passed_through [of test_fmt ?c test_stack test_scores
      "replying_world (sample_explanation\<lparr>confidence_score := - 1\<rparr>)"
      "sample_explanation\<lparr>confidence_score := 0\<rparr>", THEN conjunct1]
  have 1: "fst (api_explain_risk test_fmt ?c test_stack test_scores
          (replying_world sample_explanation)) = Response200 sample_explanation"
    unfolding t1 using sb by (simp add: parse_replying_world)
  have 2: "fst (api_explain_risk test_fmt ?c test_stack test_scores
            (replying_world (sample_explanation\<lparr>confidence_score := - 1\<rparr>)))
       \<noteq> Response200 (sample_explanation\<lparr>confidence_score := 0\<rparr>)"
    unfolding t2 using sb
    by (auto simp: parse_replying_world sample_explanation_def)
  show ?thesis using 1 2 by (simp add: sample_explanation_def)
qed

section \<open>No state across requests (C9)\<close>

text \<open>
  Claim C9: for the same stack and risk scores, in any two worlds (whatever requests came
  before) in which the external model gives the same replies to the request, the endpoint
  gives the same response; and handling a request changes nothing but the trace of
  events of the outside world.
\<close>

theorem endpoint_deterministic:
  assumes "\<forall>sb evs. format_stack fmt stack = Inr sb \<longrightarrow>
      provider w1 (trace w1 @ evs) c (build_request (build_context sb (format_scores fmt scores)))
        = provider w2 (trace w2 @ evs) c (build_request (build_context sb (format_scores fmt scores)))"
  shows "fst (api_explain_risk fmt c stack scores w1) = fst (api_explain_risk fmt c stack scores w2)
         \<and> (\<exists>evs. snd (api_explain_risk fmt c stack scores w1) = w1\<lparr>trace := trace w1 @ evs\<rparr>)
         \<and> (\<exists>evs. snd (api_explain_risk fmt c stack scores w2) = w2\<lparr>trace := trace w2 @ evs\<rparr>)"
proof -
  have "fst (explain_risk fmt c stack scores w1) = fst (explain_risk fmt c stack scores w2)"
  proof (cases "format_stack fmt stack")
    case (Inl e)
    then show ?thesis by (simp add: explain_risk_def)
  next
    case (Inr sb)
    let ?req = "build_request (build_context sb (format_scores fmt scores))"
    from assms Inr have "\<forall>evs. provider w1 (trace w1 @ evs) c ?req = provider w2 (trace w2 @ evs) c ?req"
      by simp
    from parse_same_replies [OF this] Inr show ?thesis
      by (simp add: explain_risk_formatted)
  qed
  then have "fst (api_explain_risk fmt c stack scores w1) = fst (api_explain_risk fmt c stack scores w2)"
    by (simp add: api_explain_risk_fst)
  moreover have "\<exists>evs. snd (api_explain_risk fmt c stack scores w1) = w1\<lparr>trace := trace w1 @ evs\<rparr>"
    using api_explain_risk_frame [of fmt c stack scores w1] by blast
  moreover have "\<exists>evs. snd (api_explain_risk fmt c stack scores w2) = w2\<lparr>trace := trace w2 @ evs\<rparr>"
    using api_explain_risk_frame [of fmt c stack scores w2] by blast
  ultimately show ?thesis by simp
qed

text \<open>The same request, first in a fresh world and then after an earlier request.\<close>

theorem endpoint_deterministic_witness:
  "fst (api_explain_risk test_fmt (Client ''sk-test'') test_stack test_scores
          (replying_world sample_explanation))
   = fst (api_explain_risk test_fmt (Client ''sk-test'') test_stack test_scores
            (snd (api_explain_risk test_fmt (Client ''sk-test'') [] []
                    (replying_world sample_explanation))))"
proof -
  let ?c = "Client ''sk-test''"
  let ?w1 = "replying_world sample_explanation"
  let ?w2 = "snd (api_explain_risk test_fmt ?c [] [] ?w1)"
  have "provider ?w2 = provider ?w1"
    using api_explain_risk_frame [of test_fmt ?c "[]" "[]" ?w1] by auto
  then have "\<forall>sb evs. format_stack test_fmt test_stack = Inr sb \<longrightarrow>
      provider ?w1 (trace ?w1 @ evs) ?c (build_request (build_context sb (format_scores test_fmt test_scores)))
        = provider ?w2 (trace ?w2 @ evs) ?c (build_request (build_context sb (format_scores test_fmt test_scores)))"
    by (simp add: replying_world_def)
  from endpoint_deterministic [OF this] show ?thesis by simp
qed


section \<open>The client is constructed once, at startup (C8)\<close>

lemma serve_length: "length (fst (serve fmt c reqs w)) = length reqs"
proof (induction reqs arbitrary: w)
  case Nil
  show ?case by simp
next
  case (Cons r rs)
  obtain resp w1 where step: "api_explain_risk fmt c (fst r) (snd r) w = (resp, w1)"
    by (cases "api_explain_risk fmt c (fst r) (snd r) w")
  then have "fst (serve fmt c (r # rs) w) = resp # fst (serve fmt c rs w1)"
    by (simp split: prod.splits)
  with Cons.IH [of w1] show ?case by simp
qed

lemma serve_frame:
  "\<exists>evs. snd (serve fmt c reqs w) = w\<lparr>trace := trace w @ evs\<rparr>
         \<and> (\<forall>e\<in>set evs. client_event c e)"
proof (induction reqs arbitrary: w)
  case Nil
  show ?case by (intro exI[of _ "[]"]) simp
next
  case (Cons r rs)
  obtain resp w1 where step: "api_explain_risk fmt c (fst r) (snd r) w = (resp, w1)"
    by (cases "api_explain_risk fmt c (fst r) (snd r) w")
  obtain evs1 where evs1: "w1 = w\<lparr>trace := trace w @ evs1\<rparr>"
      "\<forall>e\<in>set evs1. client_event c e"
    using api_explain_risk_frame [of fmt c "fst r" "snd r" w] step by auto
  obtain evs2 where evs2: "snd (serve fmt c rs w1) = w1\<lparr>trace := trace w1 @ evs2\<rparr>"
      "\<forall>e\<in>set evs2. client_event c e"
    using Cons.IH [of w1] by blast
  have "snd (serve fmt c (r # rs) w) = snd (serve fmt c rs w1)"
    using step by (simp split: prod.splits)
  with evs1 evs2 have "snd (serve fmt c (r # rs) w) = w\<lparr>trace := trace w @ (evs1 @ evs2)\<rparr>"
    by simp
  moreover have "\<forall>e\<in>set (evs1 @ evs2). client_event c e"
    using evs1(2) evs2(2) by auto
  ultimately show ?case by blast
qed

lemma client_events_startup:
  "\<forall>e\<in>set evs. client_event c e \<Longrightarrow> filter is_startup_event evs = []"
proof (induction evs)
  case Nil
  show ?case by simp
next
  case (Cons e evs)
  then show ?case by (cases e) simp_all
qed

lemma client_events_calls:
  "\<forall>e\<in>set evs. client_event c e \<Longrightarrow> \<forall>e\<in>set (filter is_parse_call evs). \<exists>req. e = ParseCall c req"
proof (induction evs)
  case Nil
  show ?case by simp
next
  case (Cons e evs)
  then show ?case by (cases e) simp_all
qed

lemma client_events_requests:
  "\<forall>e\<in>set evs. client_event c e \<Longrightarrow>
   \<forall>e\<in>set (filter is_http_request evs). \<exists>req. e = HttpRequest c req"
proof (induction evs)
  case Nil
  show ?case by simp
next
  case (Cons e evs)
  then show ?case by (cases e) simp_all
qed

lemma module_init_eq:
  "module_init w =
     (OpenAI (environ w ''OPENAI_API_KEY''),
      w\<lparr>trace := trace w @ [GetEnv ''OPENAI_API_KEY'',
                             ConstructClient (environ w ''OPENAI_API_KEY'')]\<rparr>)"
  by (simp add: module_init_def os_getenv_def)

text \<open>
  Claim C8: in a run of the process the environment is read and the client constructed
  exactly once, at the start, from the credential of the environment; without the
  credential the construction fails at startup, no request is answered, no call is made
  and no request is sent; with it every request is answered and every call and every
  request that is sent uses that one client; handling a request neither reads the
  environment nor constructs a client.
\<close>

theorem client_constructed_once:
  "startup_events (snd (run_process fmt reqs w))
     = startup_events w @ [GetEnv ''OPENAI_API_KEY'', ConstructClient (environ w ''OPENAI_API_KEY'')]
   \<and> (environ w ''OPENAI_API_KEY'' = None \<longrightarrow>
        (\<exists>e. fst (run_process fmt reqs w) = Inl e)
        \<and> api_calls (snd (run_process fmt reqs w)) = api_calls w
        \<and> http_requests (snd (run_process fmt reqs w)) = http_requests w)
   \<and> (\<forall>k. environ w ''OPENAI_API_KEY'' = Some k \<longrightarrow>
        (\<exists>resps. fst (run_process fmt reqs w) = Inr resps \<and> length resps = length reqs)
        \<and> (\<exists>evs. api_calls (snd (run_process fmt reqs w)) = api_calls w @ evs
                \<and> (\<forall>e\<in>set evs. \<exists>req. e = ParseCall (Client k) req))
        \<and> (\<exists>evs. http_requests (snd (run_process fmt reqs w)) = http_requests w @ evs
                \<and> (\<forall>e\<in>set evs. \<exists>req. e = HttpRequest (Client k) req)))
   \<and> startup_events (snd (api_explain_risk fmt c stack scores w)) = startup_events w
   \<and> environ (snd (api_explain_risk fmt c stack scores w)) = environ w"
proof -
  let ?key = "environ w ''OPENAI_API_KEY''"
  let ?w1 = "w\<lparr>trace := trace w @ [GetEnv ''OPENAI_API_KEY'', ConstructClient ?key]\<rparr>"
  have handler: "startup_events (snd (api_explain_risk fmt c stack scores w)) = startup_events w
      \<and> environ (snd (api_explain_risk fmt c stack scores w)) = environ w"
  proof -
    obtain evs where "snd (api_explain_risk fmt c stack scores w) = w\<lparr>trace := trace w @ evs\<rparr>"
        "\<forall>e\<in>set evs. client_event c e"
      using api_explain_risk_frame by blast
    then show ?thesis
      by (simp add: startup_events_def client_events_startup)
  qed
  show ?thesis
  proof (cases ?key)
    case None
    then have "run_process fmt reqs w
        = (Inl (RaisedError ''The api_key client option must be set''), ?w1)"
      by (simp add: run_process_def module_init_eq OpenAI_def)
    with None handler show ?thesis
      by (simp add: startup_events_def api_calls_def http_requests_def)
  next
    case (Some k)
    obtain evs where evs: "snd (serve fmt (Client k) reqs ?w1) = ?w1\<lparr>trace := trace ?w1 @ evs\<rparr>"
        "\<forall>e\<in>set evs. client_event (Client k) e"
      using serve_frame by blast
    have run: "run_process fmt reqs w
        = (Inr (fst (serve fmt (Client k) reqs ?w1)), snd (serve fmt (Client k) reqs ?w1))"
      using Some by (simp add: run_process_def module_init_eq OpenAI_def split: prod.splits)
    have 1: "startup_events (snd (run_process fmt reqs w))
        = startup_events w @ [GetEnv ''OPENAI_API_KEY'', ConstructClient ?key]"
      using run evs by (simp add: startup_events_def client_events_startup)
    have 2: "\<exists>resps. fst (run_process fmt reqs w) = Inr resps \<and> length resps = length reqs"
      using run by (simp add: serve_length)
    have "api_calls (snd (run_process fmt reqs w)) = api_calls w @ filter is_parse_call evs"
      using run evs by (simp add: api_calls_def)
    with client_events_calls [OF evs(2)]
    have 3: "\<exists>evs. api_calls (snd (run_process fmt reqs w)) = api_calls w @ evs
                \<and> (\<forall>e\<in>set evs. \<exists>req. e = ParseCall (Client k) req)"
      by blast
    have "http_requests (snd (run_process fmt reqs w)) = http_requests w @ filter is_http_request evs"
      using run evs by (simp add: http_requests_def)
    with client_events_requests [OF evs(2)]
    have 4: "\<exists>evs. http_requests (snd (run_process fmt reqs w)) = http_requests w @ evs
                \<and> (\<forall>e\<in>set evs. \<exists>req. e = HttpRequest (Client k) req)"
      by blast
    show ?thesis using Some 1 2 3 4 handler by simp
  qed
qed

text \<open>Two requests, in a process without the credential and in one with it.\<close>

theorem client_constructed_once_witness:
  "(\<exists>e. fst (run_process test_fmt [(test_stack, test_scores), (test_stack, test_scores)]
             (failing_world True ''Connection error.'')) = Inl e)
   \<and> startup_events (snd (run_process test_fmt [(test_stack, test_scores), (test_stack, test_scores)]
                            (replying_world sample_explanation)))
       = [GetEnv ''OPENAI_API_KEY'', ConstructClient (Some ''sk-test'')]
   \<and> (\<exists>resps. fst (run_process test_fmt [(test_stack, test_scores), (test_stack, test_scores)]
                      (replying_world sample_explanation)) = Inr resps \<and> length resps = 2)"
proof -
  let ?reqs = "[(test_stack, test_scores), (test_stack, test_scores)]"
  note f = client_constructed_once [of test_fmt ?reqs "failing_world True ''Connection error.''"
      "Client ''sk-test''" "[]" "[]"]
  note r = client_constructed_once [of test_fmt ?reqs "replying_world sample_explanation"
      "Client ''sk-test''" "[]" "[]"]
  have "environ (failing_world True ''Connection error.'') ''OPENAI_API_KEY'' = None"
    by (simp add: failing_world_def)
  with f have a: "\<exists>e. fst (run_process test_fmt ?reqs (failing_world True ''Connection error.'')) = Inl e"
    by blast
  have k: "environ (replying_world sample_explanation) ''OPENAI_API_KEY'' = Some ''sk-test''"
    by (simp add: replying_world_def)
  have "startup_events (replying_world sample_explanation) = []"
    by (simp add: startup_events_def replying_world_def)
  with r k have b: "startup_events (snd (run_process test_fmt ?reqs (replying_world sample_explanation)))
       = [GetEnv ''OPENAI_API_KEY'', ConstructClient (Some ''sk-test'')]"
    by simp
  from r k obtain resps where
    "fst (run_process test_fmt ?reqs (replying_world sample_explanation)) = Inr resps"
    "length resps = length ?reqs"
    by blast
  then have c: "\<exists>resps. fst (run_process test_fmt ?reqs (replying_world sample_explanation)) = Inr resps
      \<and> length resps = 2"
    by simp
  show ?thesis using a b c by simp
qed

end
